theory Spec2Isabelle
  imports Main "HOL-Library.List_Lexorder" "HOL-Library.Multiset"
begin

section \<open>Expedition roster CLI: the Store of expedition\_cli.py\<close>

text \<open>
  The program keeps a roster of members (name, role) in memory and in a JSON file.
  The model follows the class \<open>Store\<close> method by method.  The module-level switch
  \<open>BUG_MODE\<close> is read by almost every method; each method of the model takes its value
  as its first argument, and the program as shipped is the instance at \<open>BUG_MODE\<close>.
\<close>

subsection \<open>Strings\<close>

text \<open>
  A Python \<open>str\<close> is a sequence of Unicode code points; \<open>len\<close> counts code points and
  \<open>==\<close>, \<open><\<close> compare them one by one (a proper prefix is smaller).  The model is a list
  of natural numbers with the lexicographic order on lists.
\<close>

type_synonym str = "nat list"

definition ascii :: "string \<Rightarrow> str" where
  "ascii cs = map of_char cs"

text \<open>\<open>str.isspace\<close> of one code point: the 29 code points Python treats as whitespace.\<close>

definition isspace :: "nat \<Rightarrow> bool" where
  "isspace c \<longleftrightarrow>
     (9 \<le> c \<and> c \<le> 13) \<or> (28 \<le> c \<and> c \<le> 32) \<or> c = 133 \<or> c = 160 \<or> c = 5760 \<or>
     (8192 \<le> c \<and> c \<le> 8202) \<or> c = 8232 \<or> c = 8233 \<or> c = 8239 \<or> c = 8287 \<or> c = 12288"

definition strip :: "str \<Rightarrow> str" where
  "strip v = rev (dropWhile isspace (rev (dropWhile isspace v)))"

text \<open>
  \<open>str.lower\<close>, code point by code point: Basic Latin A-Z (65-90) and the Cyrillic
  capitals U+0410-U+042F move up by 32, the Cyrillic capitals U+0400-U+040F (with U+0401,
  the capital IO) move up by 80.  On Basic Latin and on the block U+0400-U+045F this is
  Python's mapping; code points of other scripts are left as they are.
\<close>

definition lower_cp :: "nat \<Rightarrow> nat" where
  "lower_cp c =
     (if 65 \<le> c \<and> c \<le> 90 then c + 32
      else if 1040 \<le> c \<and> c \<le> 1071 then c + 32
      else if 1024 \<le> c \<and> c \<le> 1039 then c + 80
      else c)"

definition lower :: "str \<Rightarrow> str" where
  "lower v = map lower_cp v"

text \<open>\<open>sep.join(parts)\<close>.\<close>

fun join :: "str \<Rightarrow> str list \<Rightarrow> str" where
  "join sep [] = []"
| "join sep [p] = p"
| "join sep (p # q # ps) = p @ sep @ join sep (q # ps)"

subsection \<open>Settings\<close>

definition BUG_MODE :: bool where
  "BUG_MODE = True"

definition DATA_FILE :: str where
  "DATA_FILE = ascii ''members.json''"

text \<open>The four roles, in Russian: shturman, voditel', gruzchik, mekhanik.\<close>

definition shturman :: str where
  "shturman = [1096, 1090, 1091, 1088, 1084, 1072, 1085]"

definition voditel :: str where
  "voditel = [1074, 1086, 1076, 1080, 1090, 1077, 1083, 1100]"

definition gruzchik :: str where
  "gruzchik = [1075, 1088, 1091, 1079, 1095, 1080, 1082]"

definition mekhanik :: str where
  "mekhanik = [1084, 1077, 1093, 1072, 1085, 1080, 1082]"

definition ROLES :: "str list" where
  "ROLES = [shturman, voditel, gruzchik, mekhanik]"

subsection \<open>Helpers\<close>

definition normalize_name :: "str \<Rightarrow> str" where
  "normalize_name v = strip v"

definition normalize_name_key :: "str \<Rightarrow> str" where
  "normalize_name_key v = lower (strip v)"

definition normalize_role :: "str \<Rightarrow> str" where
  "normalize_role v = lower (strip v)"

subsection \<open>Messages\<close>

definition ERR :: str where
  "ERR = ascii ''ERR''"

definition OK :: str where
  "OK = ascii ''OK''"

definition unknown_command :: str where
  "unknown_command = ascii ''unknown command''"

text \<open>The line printed when the data file cannot be read ("ERR: oshibka chteniya fayla dannykh").\<close>

definition msg_read_error :: str where
  "msg_read_error =
     [69, 82, 82, 58, 32, 1086, 1096, 1080, 1073, 1082, 1072, 32, 1095, 1090, 1077, 1085,
      1080, 1103, 32, 1092, 1072, 1081, 1083, 1072, 32, 1076, 1072, 1085, 1085, 1099, 1093]"

text \<open>"rol' dolzhna byt' odnoy iz: " (the role must be one of), followed by the roles.\<close>

definition msg_role_prefix :: str where
  "msg_role_prefix =
     [1088, 1086, 1083, 1100, 32, 1076, 1086, 1083, 1078, 1085, 1072, 32, 1073, 1099, 1090,
      1100, 32, 1086, 1076, 1085, 1086, 1081, 32, 1080, 1079, 58, 32]"

definition msg_bad_role :: str where
  "msg_bad_role = msg_role_prefix @ join (ascii '', '') ROLES"

text \<open>"imya dolzhno byt' 2-40 simvolov (bukvy, probel, defis)" (the name must be 2-40 characters).\<close>

definition msg_bad_name :: str where
  "msg_bad_name =
     [1080, 1084, 1103, 32, 1076, 1086, 1083, 1078, 1085, 1086, 32, 1073, 1099, 1090, 1100,
      32, 50, 8211, 52, 48, 32, 1089, 1080, 1084, 1074, 1086, 1083, 1086, 1074, 32, 40, 1073,
      1091, 1082, 1074, 1099, 44, 32, 1087, 1088, 1086, 1073, 1077, 1083, 44, 32, 1076, 1077,
      1092, 1080, 1089, 41]"

text \<open>"takoe imya uzhe sushchestvuet" (this name already exists).\<close>

definition msg_duplicate :: str where
  "msg_duplicate =
     [1090, 1072, 1082, 1086, 1077, 32, 1080, 1084, 1103, 32, 1091, 1078, 1077, 32, 1089,
      1091, 1097, 1077, 1089, 1090, 1074, 1091, 1077, 1090]"

text \<open>"dobavlen " (added), then the name in double quotes and the role in parentheses.\<close>

definition msg_added :: "str \<Rightarrow> str \<Rightarrow> str" where
  "msg_added name shown_role =
     [1076, 1086, 1073, 1072, 1074, 1083, 1077, 1085, 32, 34] @ name @ [34, 32, 40] @
     shown_role @ [41]"

text \<open>"udalyon " (removed), then the name in double quotes.\<close>

definition msg_removed :: "str \<Rightarrow> str" where
  "msg_removed name = [1091, 1076, 1072, 1083, 1105, 1085, 32, 34] @ name @ [34]"

text \<open>"zapis' s imenem " (the record named), the name in double quotes, " ne naydena" (not found).\<close>

definition msg_not_found :: "str \<Rightarrow> str" where
  "msg_not_found name =
     [1079, 1072, 1087, 1080, 1089, 1100, 32, 1089, 32, 1080, 1084, 1077, 1085, 1077, 1084,
      32, 34] @ name @ [34, 32, 1085, 1077, 32, 1085, 1072, 1081, 1076, 1077, 1085, 1072]"

subsection \<open>Data model\<close>

text \<open>
  A member is a \<open>Dict[str, str]\<close>: an association list read with \<open>m[key]\<close>, which raises
  \<open>KeyError\<close> for a key that is missing.  The roster is typed \<open>List[Dict[str, str]]\<close>, and
  the model takes it at that type.
\<close>

type_synonym dict = "(str \<times> str) list"

datatype error = KeyError str

definition getitem :: "dict \<Rightarrow> str \<Rightarrow> error + str" where
  "getitem m k = (case map_of m k of None \<Rightarrow> Inl (KeyError k) | Some v \<Rightarrow> Inr v)"

definition name_key :: str where
  "name_key = ascii ''name''"

definition role_key :: str where
  "role_key = ascii ''role''"

definition member :: "str \<Rightarrow> str \<Rightarrow> dict" where
  "member name role = [(name_key, name), (role_key, role)]"

text \<open>
  What \<open>load\<close> can find at a path: a file that cannot be read or parsed as JSON
  (\<open>Corrupt\<close>), a JSON document that is not a list (\<open>NotAList\<close>), or a JSON list
  (\<open>Roster\<close>).  \<open>json.dump\<close> followed by \<open>json.load\<close> gives back the list that was
  written, so a file written by \<open>save\<close> is the \<open>Roster\<close> of the list saved.  Writing is
  taken to succeed.
\<close>

datatype file_content = Corrupt | NotAList | Roster "dict list"

text \<open>The world outside the store: the files by path (\<open>None\<close>: no such file), and the lines printed.\<close>

record world =
  files :: "str \<Rightarrow> file_content option"
  out :: "str list"

record store =
  path :: str
  members :: "dict list"

subsection \<open>Store: persistence\<close>

definition Store_load :: "store \<Rightarrow> world \<Rightarrow> store \<times> world" where
  "Store_load s w =
     (case files w (path s) of
        Some (Roster data) \<Rightarrow> (s\<lparr>members := data\<rparr>, w)
      | Some NotAList \<Rightarrow> (s\<lparr>members := []\<rparr>, w)
      | Some Corrupt \<Rightarrow> (s\<lparr>members := []\<rparr>, w\<lparr>out := out w @ [msg_read_error]\<rparr>)
      | None \<Rightarrow> (s\<lparr>members := []\<rparr>, w))"

definition Store_init :: "str \<Rightarrow> world \<Rightarrow> store \<times> world" where
  "Store_init p w = Store_load \<lparr>path = p, members = []\<rparr> w"

definition Store_save :: "bool \<Rightarrow> store \<Rightarrow> world \<Rightarrow> world" where
  "Store_save bug s w =
     (if bug \<and> length (members s) = 0 then w
      else w\<lparr>files := (files w)(path s \<mapsto> Roster (members s))\<rparr>)"

subsection \<open>Store: operations\<close>

text \<open>
  \<open>any(p(m["name"]) for m in members)\<close>: the members are visited in order, the first hit
  ends the scan, and a member without the key raises before any later member is seen.
\<close>

fun any_name :: "(str \<Rightarrow> bool) \<Rightarrow> dict list \<Rightarrow> error + bool" where
  "any_name p [] = Inr False"
| "any_name p (m # ms) =
     (case getitem m name_key of
        Inl e \<Rightarrow> Inl e
      | Inr v \<Rightarrow> if p v then Inr True else any_name p ms)"

text \<open>
  The two patterns \<open>^[A-Za-z\<dots> -]{lo,40}$\<close> under \<open>re.fullmatch\<close>: every character is a
  Latin letter, a Cyrillic letter of U+0410-U+044F, U+0401 or U+0451, a space or a hyphen,
  and the length is between \<open>lo\<close> and 40.
\<close>

definition name_char :: "nat \<Rightarrow> bool" where
  "name_char c \<longleftrightarrow>
     (65 \<le> c \<and> c \<le> 90) \<or> (97 \<le> c \<and> c \<le> 122) \<or> (1040 \<le> c \<and> c \<le> 1071) \<or>
     (1072 \<le> c \<and> c \<le> 1103) \<or> c = 1025 \<or> c = 1105 \<or> c = 32 \<or> c = 45"

definition fullmatch_name :: "nat \<Rightarrow> str \<Rightarrow> bool" where
  "fullmatch_name lo name \<longleftrightarrow> lo \<le> length name \<and> length name \<le> 40 \<and> list_all name_char name"

definition Store_add ::
  "bool \<Rightarrow> str \<Rightarrow> str \<Rightarrow> store \<Rightarrow> world \<Rightarrow> error + ((str \<times> str) \<times> store \<times> world)" where
  "Store_add bug name0 role s w =
     (let name = normalize_name name0;
          role_in = strip role
      in
      if (if bug then lower role_in else normalize_role role_in) \<notin> set ROLES then
        (if bug then Inr ((ERR, unknown_command), s, w)
         else Inr ((ERR, msg_bad_role), s, w))
      else if \<not> bug \<and> \<not> (2 \<le> length name \<and> length name \<le> 40) then
        Inr ((ERR, msg_bad_name), s, w)
      else if \<not> fullmatch_name (if \<not> bug then 2 else 0) name then
        Inr ((ERR, msg_bad_name), s, w)
      else
        (case (if bug then any_name (\<lambda>v. v = name) (members s)
               else any_name (\<lambda>v. normalize_name_key v = normalize_name_key name) (members s)) of
           Inl e \<Rightarrow> Inl e
         | Inr exists \<Rightarrow>
             if exists then Inr ((ERR, msg_duplicate), s, w)
             else
               (let stored_role = (if bug then role_in else normalize_role role_in);
                    s' = s\<lparr>members := members s @ [member name stored_role]\<rparr>;
                    w' = Store_save bug s' w;
                    shown_role = (if bug then stored_role else normalize_role stored_role)
                in Inr ((OK, msg_added name shown_role), s', w'))))"

text \<open>
  \<open>sorted(items, key=lambda x: x["name"], reverse=reverse)\<close>: the keys are computed first,
  one per item and in order (a missing key raises); the sort is stable, and a reversed
  sort reverses the list, sorts it and reverses the result, so that items with equal keys
  keep their order in both directions.
\<close>

fun name_keys :: "dict list \<Rightarrow> error + str list" where
  "name_keys [] = Inr []"
| "name_keys (m # ms) =
     (case getitem m name_key of
        Inl e \<Rightarrow> Inl e
      | Inr k \<Rightarrow> (case name_keys ms of Inl e \<Rightarrow> Inl e | Inr ks \<Rightarrow> Inr (k # ks)))"

definition sorted_by_name :: "bool \<Rightarrow> dict list \<Rightarrow> error + dict list" where
  "sorted_by_name reverse items =
     (case name_keys items of
        Inl e \<Rightarrow> Inl e
      | Inr ks \<Rightarrow>
          Inr (map snd
            (if reverse then rev (sort_key fst (rev (zip ks items)))
             else sort_key fst (zip ks items))))"

definition Store_list_all :: "bool \<Rightarrow> store \<Rightarrow> world \<Rightarrow> error + (dict list \<times> store \<times> world)" where
  "Store_list_all bug s w =
     (if bug then
        (case Store_load s w of
           (s', w') \<Rightarrow>
             (case sorted_by_name True (members s') of
                Inl e \<Rightarrow> Inl e
              | Inr items \<Rightarrow> Inr (items, s', w')))
      else
        (case sorted_by_name False (members s) of
           Inl e \<Rightarrow> Inl e
         | Inr items \<Rightarrow> Inr (items, s, w)))"

text \<open>\<open>[m for m in members if p(m["role"])]\<close>.\<close>

fun filter_role :: "(str \<Rightarrow> bool) \<Rightarrow> dict list \<Rightarrow> error + dict list" where
  "filter_role p [] = Inr []"
| "filter_role p (m # ms) =
     (case getitem m role_key of
        Inl e \<Rightarrow> Inl e
      | Inr v \<Rightarrow>
          (case filter_role p ms of
             Inl e \<Rightarrow> Inl e
           | Inr items \<Rightarrow> Inr (if p v then m # items else items)))"

definition Store_list_by_role :: "bool \<Rightarrow> str \<Rightarrow> store \<Rightarrow> error + dict list" where
  "Store_list_by_role bug role s =
     (let r = strip role in
      case (if \<not> bug then filter_role (\<lambda>v. normalize_role v = normalize_role r) (members s)
            else filter_role (\<lambda>v. v = r) (members s)) of
        Inl e \<Rightarrow> Inl e
      | Inr items \<Rightarrow> sorted_by_name bug items)"

text \<open>
  The loop of \<open>remove\<close>: the index of the first member whose name satisfies \<open>p\<close>, counted
  from \<open>i\<close>; \<open>None\<close> when the loop ends without a \<open>break\<close>.
\<close>

fun find_name :: "(str \<Rightarrow> bool) \<Rightarrow> nat \<Rightarrow> dict list \<Rightarrow> error + nat option" where
  "find_name p i [] = Inr None"
| "find_name p i (m # ms) =
     (case getitem m name_key of
        Inl e \<Rightarrow> Inl e
      | Inr v \<Rightarrow> if p v then Inr (Some i) else find_name p (Suc i) ms)"

definition Store_remove ::
  "bool \<Rightarrow> str \<Rightarrow> store \<Rightarrow> world \<Rightarrow> error + ((str \<times> str) \<times> store \<times> world)" where
  "Store_remove bug name0 s w =
     (let name = normalize_name name0 in
      case (if bug then find_name (\<lambda>v. v = name) 0 (members s)
            else find_name (\<lambda>v. normalize_name_key v = normalize_name_key name) 0 (members s)) of
        Inl e \<Rightarrow> Inl e
      | Inr None \<Rightarrow> Inr ((ERR, msg_not_found name), s, w)
      | Inr (Some idx) \<Rightarrow>
          (let s' = s\<lparr>members := take idx (members s) @ drop (Suc idx) (members s)\<rparr>;
               w' = (if \<not> (bug \<and> length (members s') = 0) then Store_save bug s' w else w)
           in Inr ((OK, msg_removed name), s', w')))"

definition Store_count :: "bool \<Rightarrow> store \<Rightarrow> int" where
  "Store_count bug s =
     (if bug then max 0 (int (length (members s)) - 1) else int (length (members s)))"

subsection \<open>Sequences of calls\<close>

text \<open>
  A sequence of successful \<open>add\<close> and \<open>remove\<close> calls on one store, as the command loop
  issues them: the state after the last call, or \<open>None\<close> as soon as a call raises or
  answers \<open>ERR\<close>.
\<close>

datatype command = Add str str | Remove str

definition call :: "bool \<Rightarrow> command \<Rightarrow> store \<Rightarrow> world \<Rightarrow> error + ((str \<times> str) \<times> store \<times> world)" where
  "call bug c s w =
     (case c of Add name role \<Rightarrow> Store_add bug name role s w
              | Remove name \<Rightarrow> Store_remove bug name s w)"

fun run :: "bool \<Rightarrow> command list \<Rightarrow> store \<Rightarrow> world \<Rightarrow> (store \<times> world) option" where
  "run bug [] s w = Some (s, w)"
| "run bug (c # cs) s w =
     (case call bug c s w of
        Inl e \<Rightarrow> None
      | Inr ((status, msg), s', w') \<Rightarrow> if status = OK then run bug cs s' w' else None)"

subsection \<open>Vocabulary of the properties\<close>

text \<open>The name a member is sorted and compared by (the empty string stands in where the key is missing).\<close>

definition name_of :: "dict \<Rightarrow> str" where
  "name_of m = (case getitem m name_key of Inl e \<Rightarrow> [] | Inr v \<Rightarrow> v)"

text \<open>The in-memory roster is what a fresh \<open>load\<close> of the backing file would give.\<close>

definition in_sync :: "store \<Rightarrow> world \<Rightarrow> bool" where
  "in_sync s w \<longleftrightarrow> members (fst (Store_load s w)) = members s"

text \<open>A world with no file and nothing printed, and the store constructed there.\<close>

definition world0 :: world where
  "world0 = \<lparr>files = (\<lambda>p. None), out = []\<rparr>"

definition store0 :: store where
  "store0 = \<lparr>path = DATA_FILE, members = []\<rparr>"

text \<open>The store holding the roster \<open>ms\<close>, and the world whose data file holds \<open>ms\<close>.\<close>

definition store_of :: "dict list \<Rightarrow> store" where
  "store_of ms = \<lparr>path = DATA_FILE, members = ms\<rparr>"

definition world_of :: "dict list \<Rightarrow> world" where
  "world_of ms = \<lparr>files = (\<lambda>p. None)(DATA_FILE \<mapsto> Roster ms), out = []\<rparr>"

text \<open>"Shturman" with a capital first letter (U+0428).\<close>

definition Shturman_cap :: str where
  "Shturman_cap = [1064, 1090, 1091, 1088, 1084, 1072, 1085]"

text \<open>Members used in the examples.\<close>

definition m_Ann :: dict where
  "m_Ann = member (ascii ''Ann'') shturman"

definition m_ann :: dict where
  "m_ann = member (ascii ''ann'') shturman"

definition m_Bob :: dict where
  "m_Bob = member (ascii ''Bob'') voditel"

definition m_Eve :: dict where
  "m_Eve = member (ascii ''Eve'') mekhanik"

definition m_Zoya :: dict where
  "m_Zoya = member (ascii ''Zoya'') shturman"

definition m_anna :: dict where
  "m_anna = member (ascii ''anna'') voditel"

definition m_Boris :: dict where
  "m_Boris = member (ascii ''Boris'') mekhanik"

definition corrupt_world :: world where
  "corrupt_world = \<lparr>files = (\<lambda>p. None)(DATA_FILE \<mapsto> Corrupt), out = []\<rparr>"

section \<open>Properties\<close>

subsection \<open>Evaluation on concrete inputs\<close>

lemmas str_defs =
  ascii_def ERR_def OK_def unknown_command_def name_key_def role_key_def DATA_FILE_def
  shturman_def voditel_def gruzchik_def mekhanik_def ROLES_def Shturman_cap_def

lemmas norm_defs =
  normalize_name_def normalize_name_key_def normalize_role_def strip_def lower_def
  lower_cp_def isspace_def

lemmas fixture_defs =
  world0_def store0_def store_of_def world_of_def member_def corrupt_world_def
  m_Ann_def m_ann_def m_Bob_def m_Eve_def m_Zoya_def m_anna_def m_Boris_def

lemmas op_defs =
  Store_add_def Store_remove_def Store_save_def Store_load_def call_def
  fullmatch_name_def name_char_def getitem_def Let_def

lemma ERR_neq_OK: "ERR \<noteq> OK"
  by (simp add: ERR_def OK_def ascii_def)

lemma add_Ann_shipped:
  "call BUG_MODE (Add (ascii ''Ann'') shturman) store0 world0 =
     Inr ((OK, msg_added (ascii ''Ann'') shturman), store_of [m_Ann], world_of [m_Ann])"
  by (simp add: BUG_MODE_def op_defs fixture_defs str_defs norm_defs)

lemma remove_Ann_shipped:
  "call BUG_MODE (Remove (ascii ''Ann'')) (store_of [m_Ann]) (world_of [m_Ann]) =
     Inr ((OK, msg_removed (ascii ''Ann'')), store_of [], world_of [m_Ann])"
  by (simp add: BUG_MODE_def op_defs fixture_defs str_defs norm_defs)

lemma run_add_remove_Ann_shipped:
  "run BUG_MODE [Add (ascii ''Ann'') shturman, Remove (ascii ''Ann'')] store0 world0 =
     Some (store_of [], world_of [m_Ann])"
  by (simp add: add_Ann_shipped remove_Ann_shipped ERR_neq_OK [symmetric])

lemma add_pilot_shipped:
  "Store_add BUG_MODE (ascii ''Ann'') (ascii ''pilot'') store0 world0 =
     Inr ((ERR, unknown_command), store0, world0)"
  by (simp add: BUG_MODE_def op_defs fixture_defs str_defs norm_defs)

lemma add_Ann_twice_shipped:
  "Store_add BUG_MODE (ascii ''Ann'') shturman (store_of [m_Ann]) (world_of [m_Ann]) =
     Inr ((ERR, msg_duplicate), store_of [m_Ann], world_of [m_Ann])"
  by (simp add: BUG_MODE_def op_defs fixture_defs str_defs norm_defs)

lemma list_all_zab_shipped:
  "Store_list_all BUG_MODE (store_of [m_Zoya, m_anna, m_Boris]) (world_of [m_Zoya, m_anna, m_Boris]) =
     Inr ([m_anna, m_Zoya, m_Boris],
          store_of [m_Zoya, m_anna, m_Boris], world_of [m_Zoya, m_anna, m_Boris])"
  by (simp add: BUG_MODE_def op_defs fixture_defs str_defs norm_defs Store_list_all_def
      sorted_by_name_def)

lemma list_all_zab_flag_off:
  "Store_list_all False (store_of [m_Zoya, m_anna, m_Boris]) (world_of [m_Zoya, m_anna, m_Boris]) =
     Inr ([m_Boris, m_Zoya, m_anna],
          store_of [m_Zoya, m_anna, m_Boris], world_of [m_Zoya, m_anna, m_Boris])"
  by (simp add: op_defs fixture_defs str_defs norm_defs Store_list_all_def sorted_by_name_def)

text \<open>The shipped order is descending also where case plays no part: Ann, Bob come back as Bob, Ann.\<close>

lemma list_all_Ann_Bob_shipped:
  "Store_list_all BUG_MODE (store_of [m_Ann, m_Bob]) (world_of [m_Ann, m_Bob]) =
     Inr ([m_Bob, m_Ann], store_of [m_Ann, m_Bob], world_of [m_Ann, m_Bob])"
  by (simp add: BUG_MODE_def op_defs fixture_defs str_defs norm_defs Store_list_all_def
      sorted_by_name_def)

lemma run_add_zab_shipped:
  "run BUG_MODE [Add (ascii ''Zoya'') shturman, Add (ascii ''anna'') voditel,
                 Add (ascii ''Boris'') mekhanik] store0 world0 =
     Some (store_of [m_Zoya, m_anna, m_Boris], world_of [m_Zoya, m_anna, m_Boris])"
  by (simp add: BUG_MODE_def op_defs fixture_defs str_defs norm_defs)

lemma list_by_role_Ivan_flag_off:
  "Store_add False (ascii ''Ivan'') Shturman_cap store0 world0 =
     Inr ((OK, msg_added (ascii ''Ivan'') shturman),
          store_of [member (ascii ''Ivan'') shturman], world_of [member (ascii ''Ivan'') shturman])
   \<and> Store_list_by_role False shturman (store_of [member (ascii ''Ivan'') shturman]) =
     Inr [member (ascii ''Ivan'') shturman]"
  by (simp add: op_defs fixture_defs str_defs norm_defs Store_list_by_role_def sorted_by_name_def)

subsection \<open>Strings\<close>

lemma dropWhile_rev_keeps_head:
  "xs = [] \<or> \<not> p (hd xs) \<Longrightarrow>
     dropWhile p (rev (dropWhile p (rev xs))) = rev (dropWhile p (rev xs))"
  by (cases xs) (auto simp: dropWhile_append)

lemma strip_idem: "strip (strip v) = strip v"
proof -
  have "dropWhile isspace v = [] \<or> \<not> isspace (hd (dropWhile isspace v))"
    using hd_dropWhile [of isspace v] by blast
  then show ?thesis
    by (simp add: strip_def dropWhile_rev_keeps_head)
qed

subsection \<open>Sorting by name\<close>

lemma name_keys_Inr:
  "name_keys xs = Inr ks \<Longrightarrow>
     ks = map name_of xs \<and> (\<forall>m\<in>set xs. getitem m name_key = Inr (name_of m))"
  by (induction xs arbitrary: ks) (auto simp: name_of_def split: sum.splits)

lemma name_keys_total:
  "\<forall>m\<in>set xs. getitem m name_key = Inr (name_of m) \<Longrightarrow> name_keys xs = Inr (map name_of xs)"
  by (induction xs) auto

lemma insort_key_decorate:
  "insort_key fst (f x, x) (map (\<lambda>m. (f m, m)) ys) = map (\<lambda>m. (f m, m)) (insort_key f x ys)"
  by (induction ys) auto

lemma sort_key_decorate:
  "sort_key fst (map (\<lambda>m. (f m, m)) xs) = map (\<lambda>m. (f m, m)) (sort_key f xs)"
  by (induction xs) (auto simp: insort_key_decorate)

lemma zip_decorate: "zip (map f xs) xs = map (\<lambda>m. (f m, m)) xs"
  by (induction xs) auto

text \<open>Decorating with the keys, sorting on them and dropping them is sorting by \<open>name_of\<close>.\<close>

lemma sorted_by_name_eq:
  assumes "sorted_by_name reverse xs = Inr r"
  shows "r = (if reverse then rev (sort_key name_of (rev xs)) else sort_key name_of xs)"
proof -
  from assms obtain ks where ks: "name_keys xs = Inr ks"
    by (auto simp: sorted_by_name_def split: sum.splits)
  then have k: "ks = map name_of xs"
    using name_keys_Inr by blast
  have "rev (zip ks xs) = map (\<lambda>m. (name_of m, m)) (rev xs)"
    by (simp add: k zip_decorate rev_map)
  with assms ks k show ?thesis
    by (simp add: sorted_by_name_def zip_decorate sort_key_decorate rev_map o_def
        split: if_splits)
qed

lemma sorted_by_name_props:
  assumes "sorted_by_name reverse xs = Inr r"
  shows "mset r = mset xs"
    and "name_keys r = Inr (map name_of r)"
    and "if reverse then sorted (rev (map name_of r)) else sorted (map name_of r)"
    and "filter (\<lambda>m. name_of m = k) r = filter (\<lambda>m. name_of m = k) xs"
proof -
  note e = sorted_by_name_eq [OF assms]
  show "mset r = mset xs"
    using e by (simp split: if_splits)
  from assms obtain ks where ks: "name_keys xs = Inr ks"
    by (auto simp: sorted_by_name_def split: sum.splits)
  have "set r = set xs"
    using e by (simp split: if_splits)
  with name_keys_Inr [OF ks] show "name_keys r = Inr (map name_of r)"
    by (intro name_keys_total) simp
  show "if reverse then sorted (rev (map name_of r)) else sorted (map name_of r)"
    using e by (simp add: rev_map [symmetric])
  show "filter (\<lambda>m. name_of m = k) r = filter (\<lambda>m. name_of m = k) xs"
  proof (cases reverse)
    case True
    then have "filter (\<lambda>m. name_of m = k) r =
        rev (filter (\<lambda>m. name_of m = k) (sort_key name_of (rev xs)))"
      using e by (simp add: rev_filter)
    also have "\<dots> = rev (filter (\<lambda>m. name_of m = k) (rev xs))"
      by (simp only: sort_key_stable)
    finally show ?thesis
      by (simp add: rev_filter)
  next
    case False
    then show ?thesis
      using e by (simp add: sort_key_stable)
  qed
qed

subsection \<open>The methods with the switch off\<close>

text \<open>
  With \<open>BUG_MODE\<close> set to \<open>False\<close> every successful mutation writes the roster, so the
  file and the roster agree after any sequence of successful calls.
\<close>

lemma add_flag_off_saves:
  "Store_add False name role s w = Inr ((OK, msg), s', w') \<Longrightarrow>
     path s' = path s \<and> files w' (path s') = Some (Roster (members s'))"
  by (auto simp: Store_add_def Store_save_def Let_def ERR_neq_OK split: if_splits sum.splits)

lemma remove_flag_off_saves:
  "Store_remove False name s w = Inr ((OK, msg), s', w') \<Longrightarrow>
     path s' = path s \<and> files w' (path s') = Some (Roster (members s'))"
  by (auto simp: Store_remove_def Store_save_def Let_def ERR_neq_OK
      split: if_splits sum.splits option.splits)

lemma call_flag_off_saves:
  "call False c s w = Inr ((OK, msg), s', w') \<Longrightarrow>
     path s' = path s \<and> files w' (path s') = Some (Roster (members s'))"
  by (cases c) (auto simp: call_def dest: add_flag_off_saves remove_flag_off_saves)

lemma saved_in_sync: "files w (path s) = Some (Roster (members s)) \<Longrightarrow> in_sync s w"
  by (simp add: in_sync_def Store_load_def)

lemma run_flag_off_in_sync:
  "in_sync s w \<Longrightarrow> run False cs s w = Some (s', w') \<Longrightarrow> in_sync s' w'"
proof (induction cs arbitrary: s w)
  case Nil
  then show ?case by simp
next
  case (Cons c cs)
  from Cons.prems(2) obtain msg s1 w1 where
    step: "call False c s w = Inr ((OK, msg), s1, w1)" and
    rest: "run False cs s1 w1 = Some (s', w')"
    by (auto split: sum.splits if_splits)
  have "in_sync s1 w1"
    by (rule saved_in_sync) (rule call_flag_off_saves [OF step, THEN conjunct2])
  with rest show ?case
    by (rule Cons.IH [rotated])
qed

lemma any_name_False:
  "any_name p ms = Inr False \<Longrightarrow> m \<in> set ms \<Longrightarrow> getitem m name_key = Inr v \<Longrightarrow> \<not> p v"
  by (induction ms) (auto split: sum.splits if_splits)

text \<open>With the switch off, a name that differs from a stored name only in case or in
  surrounding whitespace is never added.\<close>

lemma add_flag_off_duplicate:
  assumes "m \<in> set (members s)" and "getitem m name_key = Inr v"
    and "normalize_name_key v = normalize_name_key name"
    and "Store_add False name role s w = Inr ((status, msg), s', w')"
  shows "status = ERR \<and> s' = s \<and> w' = w"
proof -
  have k: "normalize_name_key (normalize_name name) = normalize_name_key name"
    by (simp add: normalize_name_key_def normalize_name_def strip_idem)
  have "any_name (\<lambda>v. normalize_name_key v = normalize_name_key (normalize_name name))
          (members s) \<noteq> Inr False"
  proof
    assume "any_name (\<lambda>v. normalize_name_key v = normalize_name_key (normalize_name name))
              (members s) = Inr False"
    from any_name_False [OF this assms(1,2)] show False
      by (simp add: k assms(3))
  qed
  with assms(4) show ?thesis
    by (auto simp: Store_add_def Let_def split: if_splits sum.splits)
qed

lemma add_flag_off_bad_role:
  "normalize_role (strip role) \<notin> set ROLES \<Longrightarrow>
     Store_add False name role s w = Inr ((ERR, msg_bad_role), s, w)"
  by (simp add: Store_add_def Let_def)

lemma add_flag_off_name_length:
  "normalize_role (strip role) \<in> set ROLES \<Longrightarrow>
   length (strip name) < 2 \<or> 40 < length (strip name) \<Longrightarrow>
     Store_add False name role s w = Inr ((ERR, msg_bad_name), s, w)"
  by (auto simp: Store_add_def Let_def normalize_name_def)

lemma add_flag_off_name_chars:
  "normalize_role (strip role) \<in> set ROLES \<Longrightarrow> c \<in> set (strip name) \<Longrightarrow> \<not> name_char c \<Longrightarrow>
     Store_add False name role s w = Inr ((ERR, msg_bad_name), s, w)"
  by (auto simp: Store_add_def Let_def normalize_name_def fullmatch_name_def list_all_iff)

lemma Store_count_flag_off: "Store_count False s = int (length (members s))"
  by (simp add: Store_count_def)

lemma list_all_flag_off:
  "Store_list_all False s w = Inr (items, s', w') \<Longrightarrow>
     s' = s \<and> w' = w \<and> items = sort_key name_of (members s)"
  by (auto simp: Store_list_all_def split: sum.splits dest: sorted_by_name_eq)

subsection \<open>The claims\<close>

text \<open>
  C1.  After any sequence of successful add and remove calls, reloading the store from the
  backing file reproduces the in-memory roster; an empty roster is written as an empty
  sequence.  The shipped program (\<open>BUG_MODE = True\<close>) does not do this: from a store
  constructed where no file exists, \<open>add("Ann", shturman)\<close> and \<open>remove("Ann")\<close> both
  answer \<open>OK\<close> and leave the roster empty, \<open>remove\<close> and \<open>save\<close> both skip the write, the
  file still holds Ann, and a reload gives the roster [Ann].
\<close>

theorem remove_last_member_keeps_stale_file:
  "Store_init DATA_FILE world0 = (store0, world0) \<and>
   run BUG_MODE [Add (ascii ''Ann'') shturman, Remove (ascii ''Ann'')] store0 world0 =
     Some (store_of [], world_of [m_Ann]) \<and>
   files (world_of [m_Ann]) (path (store_of [])) = Some (Roster [m_Ann]) \<and>
   Store_load (store_of []) (world_of [m_Ann]) = (store_of [m_Ann], world_of [m_Ann]) \<and>
   Store_init DATA_FILE (world_of [m_Ann]) = (store_of [m_Ann], world_of [m_Ann]) \<and>
   \<not> in_sync (store_of []) (world_of [m_Ann])"
  unfolding run_add_remove_Ann_shipped
  by (simp add: in_sync_def Store_init_def Store_load_def store0_def world0_def store_of_def
      world_of_def)

text \<open>
  C2.  A name whose trimmed, lowercased form equals that of a stored name is refused with
  the duplicate-name error and the roster stays as it is.  The shipped program compares
  names with \<open>==\<close>: in the store holding "Ann", \<open>add("ann", shturman)\<close> answers \<open>OK\<close> and
  the roster then holds both "Ann" and "ann".
\<close>

theorem add_accepts_name_differing_in_case:
  "normalize_name_key (ascii ''ann'') = normalize_name_key (name_of m_Ann) \<and>
   Store_add BUG_MODE (ascii ''ann'') shturman (store_of [m_Ann]) (world_of [m_Ann]) =
     Inr ((OK, msg_added (ascii ''ann'') shturman),
          store_of [m_Ann, m_ann], world_of [m_Ann, m_ann]) \<and>
   run BUG_MODE [Add (ascii ''Ann'') shturman, Add (ascii ''ann'') shturman] store0 world0 =
     Some (store_of [m_Ann, m_ann], world_of [m_Ann, m_ann]) \<and>
   normalize_name_key (name_of m_ann) = normalize_name_key (name_of m_Ann)"
  by (simp add: BUG_MODE_def op_defs fixture_defs str_defs norm_defs name_of_def)

text \<open>
  C3.  \<open>count()\<close> is the number of members held, and is 3 after three valid distinct
  members were added to an empty store.  The shipped program answers one less: after the
  three successful adds the roster has three members and \<open>count()\<close> is 2.
\<close>

theorem count_after_three_adds_is_two:
  "run BUG_MODE [Add (ascii ''Ann'') shturman, Add (ascii ''Bob'') voditel,
                 Add (ascii ''Eve'') mekhanik] store0 world0 =
     Some (store_of [m_Ann, m_Bob, m_Eve], world_of [m_Ann, m_Bob, m_Eve]) \<and>
   length (members (store_of [m_Ann, m_Bob, m_Eve])) = 3 \<and>
   Store_count BUG_MODE (store_of [m_Ann, m_Bob, m_Eve]) = 2"
  by (simp add: BUG_MODE_def op_defs fixture_defs str_defs norm_defs Store_count_def)

text \<open>
  C4, as claimed: \<open>list_all()\<close> returns the members in ascending case-insensitive order of
  name, so Zoya, anna, Boris come back as anna, Boris, Zoya.  Neither setting of the
  switch gives that order: the sort key is the name itself, compared code point by code
  point, and every capital Latin letter is below every small one.  The shipped program
  returns anna, Zoya, Boris; with the switch off the program returns Boris, Zoya, anna.
\<close>

theorem list_all_Zoya_anna_Boris_not_case_insensitive:
  "run BUG_MODE [Add (ascii ''Zoya'') shturman, Add (ascii ''anna'') voditel,
                 Add (ascii ''Boris'') mekhanik] store0 world0 =
     Some (store_of [m_Zoya, m_anna, m_Boris], world_of [m_Zoya, m_anna, m_Boris]) \<and>
   Store_list_all BUG_MODE (store_of [m_Zoya, m_anna, m_Boris]) (world_of [m_Zoya, m_anna, m_Boris]) =
     Inr ([m_anna, m_Zoya, m_Boris],
          store_of [m_Zoya, m_anna, m_Boris], world_of [m_Zoya, m_anna, m_Boris]) \<and>
   Store_list_all False (store_of [m_Zoya, m_anna, m_Boris]) (world_of [m_Zoya, m_anna, m_Boris]) =
     Inr ([m_Boris, m_Zoya, m_anna],
          store_of [m_Zoya, m_anna, m_Boris], world_of [m_Zoya, m_anna, m_Boris]) \<and>
   [m_anna, m_Zoya, m_Boris] \<noteq> [m_anna, m_Boris, m_Zoya] \<and>
   [m_Boris, m_Zoya, m_anna] \<noteq> [m_anna, m_Boris, m_Zoya]"
  unfolding run_add_zab_shipped list_all_zab_shipped list_all_zab_flag_off
  by (simp add: fixture_defs str_defs)

text \<open>
  C4, amended to the order the code sorts by.  On the path the program calls correct
  (\<open>BUG_MODE\<close> off), whenever every member of the roster has a name, \<open>list_all()\<close> returns,
  leaves the store and the world exactly as they were, and returns every member of the
  in-memory roster, each once, sorted by name in ascending order of Python's string
  comparison (code point by code point, hence case-sensitive: every capital Latin letter
  comes before every small one), members with equal names in the order they have in the
  roster.  What the shipped setting does instead (descending order, marked BUG 3 in the
  source, after a reload of the file) is not part of this statement.
\<close>

theorem list_all_flag_off_ascending_code_point_order:
  "\<forall>m\<in>set (members s). \<exists>v. getitem m name_key = Inr v \<Longrightarrow>
     \<exists>items. Store_list_all False s w = Inr (items, s, w) \<and>
       mset items = mset (members s) \<and>
       sorted (map name_of items) \<and>
       (\<forall>m\<in>set items. getitem m name_key = Inr (name_of m)) \<and>
       (\<forall>k. filter (\<lambda>m. name_of m = k) items = filter (\<lambda>m. name_of m = k) (members s))"
proof -
  assume named: "\<forall>m\<in>set (members s). \<exists>v. getitem m name_key = Inr v"
  then have names: "\<forall>m\<in>set (members s). getitem m name_key = Inr (name_of m)"
    by (auto simp: name_of_def)
  then have keys: "name_keys (members s) = Inr (map name_of (members s))"
    by (rule name_keys_total)
  then obtain items where items: "sorted_by_name False (members s) = Inr items"
    by (simp add: sorted_by_name_def)
  have run: "Store_list_all False s w = Inr (items, s, w)"
    by (simp add: Store_list_all_def items)
  have perm: "mset items = mset (members s)"
    by (rule sorted_by_name_props(1) [OF items])
  have asc: "sorted (map name_of items)"
    using sorted_by_name_props(3) [OF items] by simp
  have "set items = set (members s)"
    using perm by (rule mset_eq_setD)
  with names have named': "\<forall>m\<in>set items. getitem m name_key = Inr (name_of m)"
    by simp
  have stable: "\<forall>k. filter (\<lambda>m. name_of m = k) items = filter (\<lambda>m. name_of m = k) (members s)"
    using sorted_by_name_props(4) [OF items] by simp
  from run perm asc named' stable show ?thesis
    by blast
qed

theorem list_all_flag_off_ascending_code_point_order_witness:
  "Store_list_all False (store_of [m_Zoya, m_anna, m_Boris]) (world_of [m_Zoya, m_anna, m_Boris]) =
     Inr ([m_Boris, m_Zoya, m_anna],
          store_of [m_Zoya, m_anna, m_Boris], world_of [m_Zoya, m_anna, m_Boris]) \<and>
   mset [m_Boris, m_Zoya, m_anna] = mset (members (store_of [m_Zoya, m_anna, m_Boris])) \<and>
   sorted (map name_of [m_Boris, m_Zoya, m_anna]) \<and>
   getitem m_Boris name_key = Inr (name_of m_Boris) \<and>
   filter (\<lambda>m. name_of m = ascii ''anna'') [m_Boris, m_Zoya, m_anna] =
     filter (\<lambda>m. name_of m = ascii ''anna'') (members (store_of [m_Zoya, m_anna, m_Boris]))"
proof -
  have named: "\<forall>m\<in>set (members (store_of [m_Zoya, m_anna, m_Boris])).
      \<exists>v. getitem m name_key = Inr v"
    by (simp add: store_of_def getitem_def member_def m_Zoya_def m_anna_def m_Boris_def)
  from list_all_flag_off_ascending_code_point_order [OF named,
      of "world_of [m_Zoya, m_anna, m_Boris]"]
  show ?thesis
    unfolding list_all_zab_flag_off by auto
qed

text \<open>
  C5.  \<open>list_by_role(role)\<close> matches roles without regard to case, so after
  \<open>add("Ivan", "Shturman")\<close> (capital first letter) the query \<open>list_by_role("shturman")\<close>
  returns Ivan.  The shipped program stores the role as typed and filters with \<open>==\<close>:
  the add answers \<open>OK\<close> and the query returns the empty list.
\<close>

theorem list_by_role_misses_capitalised_role:
  "Store_add BUG_MODE (ascii ''Ivan'') Shturman_cap store0 world0 =
     Inr ((OK, msg_added (ascii ''Ivan'') Shturman_cap),
          store_of [member (ascii ''Ivan'') Shturman_cap],
          world_of [member (ascii ''Ivan'') Shturman_cap]) \<and>
   Store_list_by_role BUG_MODE shturman (store_of [member (ascii ''Ivan'') Shturman_cap]) = Inr []"
  by (simp add: BUG_MODE_def op_defs fixture_defs str_defs norm_defs Store_list_by_role_def
      sorted_by_name_def)

text \<open>
  C6.  \<open>add\<close> refuses a name whose trimmed length is below 2 or above 40.  The shipped
  program uses the pattern with the bounds 0 and 40 and skips the length test: the
  one-letter name "A" and the empty name are both added with status \<open>OK\<close>.
\<close>

theorem add_accepts_one_letter_and_empty_name:
  "Store_add BUG_MODE (ascii ''A'') shturman store0 world0 =
     Inr ((OK, msg_added (ascii ''A'') shturman),
          store_of [member (ascii ''A'') shturman], world_of [member (ascii ''A'') shturman]) \<and>
   Store_add BUG_MODE [] shturman store0 world0 =
     Inr ((OK, msg_added [] shturman),
          store_of [member [] shturman], world_of [member [] shturman])"
  by (simp add: BUG_MODE_def op_defs fixture_defs str_defs norm_defs)

text \<open>
  C7.  A role outside the role set is answered with \<open>ERR\<close> and a message naming the valid
  roles, never with "unknown command".  The shipped program answers \<open>add("Ann", "pilot")\<close>
  with \<open>("ERR", "unknown command")\<close>, which is not the message naming the roles.
\<close>

theorem add_bad_role_answers_unknown_command:
  "ascii ''pilot'' \<notin> set ROLES \<and>
   Store_add BUG_MODE (ascii ''Ann'') (ascii ''pilot'') store0 world0 =
     Inr ((ERR, unknown_command), store0, world0) \<and>
   unknown_command \<noteq> msg_bad_role"
  by (simp add: BUG_MODE_def op_defs fixture_defs str_defs norm_defs msg_bad_role_def
      msg_role_prefix_def)

text \<open>
  C8.  \<open>list_all()\<close> works on the roster in memory, does not read the file and leaves the
  store as it was.  The shipped program calls \<open>load()\<close> first: in the state reached by
  adding Ann and removing her again (empty roster, file still holding Ann), \<open>list_all()\<close>
  returns [Ann] and leaves the store with the roster [Ann].
\<close>

theorem list_all_reloads_roster_from_file:
  "run BUG_MODE [Add (ascii ''Ann'') shturman, Remove (ascii ''Ann'')] store0 world0 =
     Some (store_of [], world_of [m_Ann]) \<and>
   Store_list_all BUG_MODE (store_of []) (world_of [m_Ann]) =
     Inr ([m_Ann], store_of [m_Ann], world_of [m_Ann]) \<and>
   members (store_of [m_Ann]) \<noteq> members (store_of [])"
  unfolding run_add_remove_Ann_shipped
  by (simp add: BUG_MODE_def op_defs fixture_defs str_defs norm_defs Store_list_all_def
      sorted_by_name_def)

text \<open>
  C9.  \<open>load()\<close> always returns: it keeps the path, writes no file, and leaves the roster
  empty when the file is absent, when it cannot be read or parsed (one diagnostic line is
  printed) and when its content is not a list; when the file holds a list, that list is the
  roster.
\<close>

theorem load_never_raises:
  "\<exists>s' w'. Store_load s w = (s', w') \<and> path s' = path s \<and> files w' = files w \<and>
     (case files w (path s) of
        None \<Rightarrow> members s' = [] \<and> out w' = out w
      | Some Corrupt \<Rightarrow> members s' = [] \<and> out w' = out w @ [msg_read_error]
      | Some NotAList \<Rightarrow> members s' = [] \<and> out w' = out w
      | Some (Roster data) \<Rightarrow> members s' = data \<and> out w' = out w)"
  by (simp add: Store_load_def split: option.splits file_content.splits)

theorem load_never_raises_witness:
  "\<exists>s' w'. Store_load (store_of [m_Ann]) corrupt_world = (s', w') \<and>
     path s' = DATA_FILE \<and> files w' = files corrupt_world \<and>
     members s' = [] \<and> out w' = [msg_read_error]"
  using load_never_raises [of "store_of [m_Ann]" corrupt_world]
  by (simp add: store_of_def corrupt_world_def)

text \<open>
  C10.  When \<open>add\<close> answers \<open>ERR\<close> (bad role, bad name or duplicate), the roster and the
  world, the backing file included, are what they were before the call.  This holds for
  both settings of the switch.
\<close>

theorem add_err_leaves_state_unchanged:
  "Store_add bug name role s w = Inr ((ERR, msg), s', w') \<Longrightarrow> s' = s \<and> w' = w"
  by (auto simp: Store_add_def Let_def ERR_neq_OK [symmetric] split: if_splits sum.splits)

theorem add_err_leaves_state_unchanged_witness:
  "Store_add BUG_MODE (ascii ''Ann'') shturman (store_of [m_Ann]) (world_of [m_Ann]) =
     Inr ((ERR, msg_duplicate), store_of [m_Ann], world_of [m_Ann]) \<and>
   store_of [m_Ann] = store_of [m_Ann] \<and> world_of [m_Ann] = world_of [m_Ann]"
  using add_err_leaves_state_unchanged [OF add_Ann_twice_shipped] add_Ann_twice_shipped
  by blast

end
